theory Spec2Isabelle
  imports Main "HOL-Library.Word"
begin

section \<open>Data model\<close>

text \<open>
  The XmlHttpRequest backend of BrowserFS (src/backend/XmlHttpRequest.ts) is a read-only
  file system over a static index. File bytes are fetched on demand and cached on the
  Stats record of the file's inode.
\<close>

type_synonym Buffer = "8 word list"

datatype ErrorCode =
  EPERM | ENOENT | EIO | EBADF | EACCES | EBUSY | EEXIST | ENOTDIR | EISDIR | EINVAL
  | EFBIG | ENOSPC | EROFS | ENOTEMPTY | ENOTSUP

text \<open>
  A thrown JavaScript value: an ApiError with its code and its message or path, or any
  other exception (a TypeError, a decoding error, whatever a callback throws).
\<close>

datatype ApiError = ApiError ErrorCode string | Thrown string

text \<open>
  The open-flag vocabulary (core/file_flag): the source reads a flag through
  \<open>isWriteable()\<close> and \<open>pathExistsAction()\<close> only, so a flag is the pair of both answers.
  \<open>CREATE_FILE\<close> is the remaining value of the action enum, which the switch of
  \<open>open\<close> sends to its default branch.
\<close>

datatype ActionType = NOP | THROW_EXCEPTION | TRUNCATE_FILE | CREATE_FILE

record FileFlag =
  isWriteable :: bool
  pathExistsAction :: ActionType

text \<open>
  The Stats record (core/node_fs_stats), with the two fields this backend reads and
  writes. A negative size means that the size is not known yet.
\<close>

record Stats =
  st_size :: int
  file_data :: "Buffer option"

text \<open>
  Stats objects are shared by reference: the record an inode owns lives in the store at
  an address, and \<open>stats.clone()\<close> makes a fresh object that nothing else refers to.
\<close>

datatype StatsObj = Canonical nat | Clone Stats

text \<open>
  Modelled from the spec: the Metadata Index (generic/file_index) maps a path to a file
  node owning a Stat record, to a directory node owning its ordered child names and its
  own Stat, or to nothing.
\<close>

datatype Inode = FileInode nat | DirInode "string list" nat

text \<open>
  Modelled from the spec: the Buffered File Handle (generic/preload_file, NoSyncFile)
  wraps the materialised buffer and a Stats snapshot, together with the path and the
  flag it was opened with.
\<close>

record File =
  nsf_path :: string
  nsf_flag :: FileFlag
  nsf_stat :: Stats
  nsf_buffer :: Buffer

datatype FileData = Buf Buffer | Str string

text \<open>What a completion callback can be handed as its result.\<close>

datatype CbValue = VStats StatsObj | VFile File | VListing "string list" | VData FileData

text \<open>
  Observable events: the requests sent to the transport, the closing of a handle, and
  the invocations of the caller's completion callback with its error and result slots.
\<close>

datatype event =
  XhrHead string | XhrGet string | Closed string | Callback "ApiError option" "CbValue option"

record world =
  index :: "(string \<times> Inode) list"
  store :: "nat \<Rightarrow> Stats"
  prefixUrl :: string
  trace :: "event list"

text \<open>
  The collaborators outside this file: the transport (generic/xhr), which answers a
  locator with a size or with bytes, or fails; the decoding of a buffer in an encoding,
  which throws on an encoding it does not know; and the outcome of closing a handle
  (the close of the buffered handle of this file system is a no-op, which never fails).
  One function serves the blocking and the non-blocking form of a request, so both see
  the same transport results.
\<close>

record env =
  getFileSize :: "string \<Rightarrow> ApiError + int"
  downloadFile :: "string \<Rightarrow> ApiError + Buffer"
  toString :: "Buffer \<Rightarrow> string \<Rightarrow> ApiError + string"
  closeErr :: "File \<Rightarrow> ApiError option"

text \<open>
  A blocking operation returns its value or throws (\<open>Inl\<close>), and leaves a world. A
  non-blocking operation hands its outcome to a callback. The answer to a non-blocking
  request arrives on a later tick: the completion handler runs in the world that the
  other operations of the program have left by then.
\<close>

type_synonym 'a result = "(ApiError + 'a) \<times> world"

type_synonym 'r callback = "ApiError option \<Rightarrow> 'r option \<Rightarrow> world \<Rightarrow> unit result"

definition record_event :: "event \<Rightarrow> world \<Rightarrow> world" where
  "record_event ev w = w\<lparr>trace := trace w @ [ev]\<rparr>"

section \<open>Index and transport\<close>

definition getInode :: "world \<Rightarrow> string \<Rightarrow> Inode option" where
  "getInode w path = map_of (index w) path"

fun isFileInode :: "Inode option \<Rightarrow> bool" where
  "isFileInode (Some (FileInode r)) = True"
| "isFileInode _ = False"

fun isDirInode :: "Inode option \<Rightarrow> bool" where
  "isDirInode (Some (DirInode l r)) = True"
| "isDirInode _ = False"

text \<open>
  Modelled from the spec: the iterator of the index over the Stat records of all its
  file nodes, in the order of the index.
\<close>

fun fileIterator :: "(Stats \<Rightarrow> Stats) \<Rightarrow> (string \<times> Inode) list \<Rightarrow> (nat \<Rightarrow> Stats) \<Rightarrow> (nat \<Rightarrow> Stats)" where
  "fileIterator f [] s = s"
| "fileIterator f ((p, FileInode r) # xs) s = fileIterator f xs (s(r := f (s r)))"
| "fileIterator f ((p, DirInode l r) # xs) s = fileIterator f xs s"

definition empty_fs :: "world \<Rightarrow> world" where
  "empty_fs w = w\<lparr>store := fileIterator (\<lambda>file. file\<lparr>file_data := None\<rparr>) (index w) (store w)\<rparr>"

definition getXhrPath :: "world \<Rightarrow> string \<Rightarrow> string" where
  "getXhrPath w filePath =
     prefixUrl w @ (case filePath of [] \<Rightarrow> [] | c # cs \<Rightarrow> if c = CHR ''/'' then cs else filePath)"

definition requestFileSizeSync :: "env \<Rightarrow> world \<Rightarrow> string \<Rightarrow> int result" where
  "requestFileSizeSync E w path =
     (getFileSize E (getXhrPath w path), record_event (XhrHead (getXhrPath w path)) w)"

text \<open>
  The non-blocking requests. \<open>meanwhile\<close> is what the rest of the program does to the
  world between the sending of the request and the call of its completion handler: the
  handler sees the world after it, not the world of the call.
\<close>

definition requestFileSizeAsync ::
  "env \<Rightarrow> (world \<Rightarrow> world) \<Rightarrow> world \<Rightarrow> string \<Rightarrow>
     (ApiError + int \<Rightarrow> world \<Rightarrow> unit result) \<Rightarrow> unit result" where
  "requestFileSizeAsync E meanwhile w path cb =
     cb (getFileSize E (getXhrPath w path))
        (meanwhile (record_event (XhrHead (getXhrPath w path)) w))"

definition requestFileSync :: "env \<Rightarrow> world \<Rightarrow> string \<Rightarrow> Buffer result" where
  "requestFileSync E w p =
     (downloadFile E (getXhrPath w p), record_event (XhrGet (getXhrPath w p)) w)"

definition requestFileAsync ::
  "env \<Rightarrow> (world \<Rightarrow> world) \<Rightarrow> world \<Rightarrow> string \<Rightarrow>
     (ApiError + Buffer \<Rightarrow> world \<Rightarrow> unit result) \<Rightarrow> unit result" where
  "requestFileAsync E meanwhile w p cb =
     cb (downloadFile E (getXhrPath w p))
        (meanwhile (record_event (XhrGet (getXhrPath w p)) w))"

text \<open>Writing both fields of the canonical record, as \<open>preloadFile\<close> and both opens do.\<close>

definition setContent :: "nat \<Rightarrow> Buffer \<Rightarrow> world \<Rightarrow> world" where
  "setContent r buffer w =
     w\<lparr>store := (store w)(r := (store w r)\<lparr>st_size := int (length buffer), file_data := Some buffer\<rparr>)\<rparr>"

definition setSize :: "nat \<Rightarrow> int \<Rightarrow> world \<Rightarrow> world" where
  "setSize r n w = w\<lparr>store := (store w)(r := (store w r)\<lparr>st_size := n\<rparr>)\<rparr>"

definition NoSyncFile :: "string \<Rightarrow> FileFlag \<Rightarrow> Stats \<Rightarrow> Buffer \<Rightarrow> File" where
  "NoSyncFile path flags stats buffer =
     \<lparr>nsf_path = path, nsf_flag = flags, nsf_stat = stats, nsf_buffer = buffer\<rparr>"

section \<open>Operations\<close>

definition preloadFile :: "world \<Rightarrow> string \<Rightarrow> Buffer \<Rightarrow> unit result" where
  "preloadFile w path buffer =
     (let inode = getInode w path in
      if isFileInode inode then
        (case inode of
           None \<Rightarrow> (Inl (ApiError ENOENT path), w)
         | Some (FileInode r) \<Rightarrow> (Inr (), setContent r buffer w)
         | Some (DirInode l r) \<Rightarrow> (Inl (Thrown ''TypeError''), w))
      else (Inl (ApiError EISDIR path), w))"

text \<open>
  \<open>stat\<close> and \<open>statSync\<close> test the inode for null, then for a file node, then for a
  directory node, and end in an EINVAL branch for a node that is neither. An inode is one
  or the other, so the case distinction on the node has no such branch. The callback of
  \<open>stat\<close> gets \<open>stats.clone()\<close> for a file and the Stats of the inode for a
  directory; \<open>statSync\<close> returns the Stats of the inode in both cases.

  \<open>stat_meanwhile\<close> is the source's \<open>stat\<close> together with what runs before the
  answer of its size probe: the test \<open>stats.size < 0\<close> is made when the request is
  sent, and the handler assigns \<open>stats.size\<close> when the answer arrives. \<open>stat\<close> is
  the call in isolation, with nothing running in between.
\<close>

definition stat_meanwhile ::
  "(world \<Rightarrow> world) \<Rightarrow> env \<Rightarrow> world \<Rightarrow> string \<Rightarrow> bool \<Rightarrow> StatsObj callback \<Rightarrow> unit result" where
  "stat_meanwhile meanwhile E w path isLstat cb =
     (case getInode w path of
        None \<Rightarrow> cb (Some (ApiError ENOENT path)) None w
      | Some (FileInode r) \<Rightarrow>
          if st_size (store w r) < 0 then
            requestFileSizeAsync E meanwhile w path (\<lambda>res w1.
              case res of
                Inl e \<Rightarrow> cb (Some e) None w1
              | Inr n \<Rightarrow> cb None (Some (Clone (store (setSize r n w1) r))) (setSize r n w1))
          else cb None (Some (Clone (store w r))) w
      | Some (DirInode l r) \<Rightarrow> cb None (Some (Canonical r)) w)"

definition stat :: "env \<Rightarrow> world \<Rightarrow> string \<Rightarrow> bool \<Rightarrow> StatsObj callback \<Rightarrow> unit result" where
  "stat E w path isLstat cb = stat_meanwhile (\<lambda>w. w) E w path isLstat cb"

definition statSync :: "env \<Rightarrow> world \<Rightarrow> string \<Rightarrow> bool \<Rightarrow> StatsObj result" where
  "statSync E w path isLstat =
     (case getInode w path of
        None \<Rightarrow> (Inl (ApiError ENOENT path), w)
      | Some (FileInode r) \<Rightarrow>
          if st_size (store w r) < 0 then
            (case requestFileSizeSync E w path of
               (Inl e, w1) \<Rightarrow> (Inl e, w1)
             | (Inr n, w1) \<Rightarrow> (Inr (Canonical r), setSize r n w1))
          else (Inr (Canonical r), w)
      | Some (DirInode l r) \<Rightarrow> (Inr (Canonical r), w))"

text \<open>
  \<open>open_meanwhile\<close> is the source's \<open>open\<close> together with what runs before the
  answer of its download; \<open>open\<close> is the call in isolation.
\<close>

definition open_meanwhile ::
  "(world \<Rightarrow> world) \<Rightarrow> env \<Rightarrow> world \<Rightarrow> string \<Rightarrow> FileFlag \<Rightarrow> nat \<Rightarrow> File callback \<Rightarrow> unit result" where
  "open_meanwhile meanwhile E w path flags mode cb =
     (if isWriteable flags then cb (Some (ApiError EPERM path)) None w
      else
        (case getInode w path of
           None \<Rightarrow> cb (Some (ApiError ENOENT path)) None w
         | Some (FileInode r) \<Rightarrow>
             (case pathExistsAction flags of
                THROW_EXCEPTION \<Rightarrow> cb (Some (ApiError EEXIST path)) None w
              | TRUNCATE_FILE \<Rightarrow> cb (Some (ApiError EEXIST path)) None w
              | NOP \<Rightarrow>
                  (case file_data (store w r) of
                     Some d \<Rightarrow> cb None (Some (NoSyncFile path flags (store w r) d)) w
                   | None \<Rightarrow>
                       requestFileAsync E meanwhile w path (\<lambda>res w1.
                         case res of
                           Inl err \<Rightarrow> cb (Some err) None w1
                         | Inr buffer \<Rightarrow>
                             cb None
                               (Some (NoSyncFile path flags (store (setContent r buffer w1) r) buffer))
                               (setContent r buffer w1)))
              | CREATE_FILE \<Rightarrow> cb (Some (ApiError EINVAL ''Invalid FileMode object.'')) None w)
         | Some (DirInode l r) \<Rightarrow> cb (Some (ApiError EISDIR path)) None w))"

definition "open" :: "env \<Rightarrow> world \<Rightarrow> string \<Rightarrow> FileFlag \<Rightarrow> nat \<Rightarrow> File callback \<Rightarrow> unit result" where
  "open E w path flags mode cb = open_meanwhile (\<lambda>w. w) E w path flags mode cb"

definition openSync :: "env \<Rightarrow> world \<Rightarrow> string \<Rightarrow> FileFlag \<Rightarrow> nat \<Rightarrow> File result" where
  "openSync E w path flags mode =
     (if isWriteable flags then (Inl (ApiError EPERM path), w)
      else
        (case getInode w path of
           None \<Rightarrow> (Inl (ApiError ENOENT path), w)
         | Some (FileInode r) \<Rightarrow>
             (case pathExistsAction flags of
                THROW_EXCEPTION \<Rightarrow> (Inl (ApiError EEXIST path), w)
              | TRUNCATE_FILE \<Rightarrow> (Inl (ApiError EEXIST path), w)
              | NOP \<Rightarrow>
                  (case file_data (store w r) of
                     Some d \<Rightarrow> (Inr (NoSyncFile path flags (store w r) d), w)
                   | None \<Rightarrow>
                       (case requestFileSync E w path of
                          (Inl err, w1) \<Rightarrow> (Inl err, w1)
                        | (Inr buffer, w1) \<Rightarrow>
                            (Inr (NoSyncFile path flags (store (setContent r buffer w1) r) buffer),
                             setContent r buffer w1)))
              | CREATE_FILE \<Rightarrow> (Inl (ApiError EINVAL ''Invalid FileMode object.''), w))
         | Some (DirInode l r) \<Rightarrow> (Inl (ApiError EISDIR path), w)))"

definition readdirSync :: "world \<Rightarrow> string \<Rightarrow> string list result" where
  "readdirSync w path =
     (case getInode w path of
        None \<Rightarrow> (Inl (ApiError ENOENT path), w)
      | Some (DirInode l r) \<Rightarrow> (Inr l, w)
      | Some (FileInode r) \<Rightarrow> (Inl (ApiError ENOTDIR path), w))"

text \<open>
  \<open>readdir\<close> calls the callback inside its \<open>try\<close> block, so the \<open>catch\<close> clause also
  receives what the callback itself throws.
\<close>

definition readdir :: "world \<Rightarrow> string \<Rightarrow> string list callback \<Rightarrow> unit result" where
  "readdir w path cb =
     (case readdirSync w path of
        (Inl e, w1) \<Rightarrow> cb (Some e) None w1
      | (Inr l, w1) \<Rightarrow>
          (case cb None (Some l) w1 of
             (Inl e, w2) \<Rightarrow> cb (Some e) None w2
           | (Inr u, w2) \<Rightarrow> (Inr u, w2)))"

definition tryToString :: "env \<Rightarrow> Buffer \<Rightarrow> string \<Rightarrow> FileData callback \<Rightarrow> world \<Rightarrow> unit result" where
  "tryToString E buff encoding cb w =
     (case toString E buff encoding of
        Inl e \<Rightarrow> cb (Some e) None w
      | Inr s \<Rightarrow>
          (case cb None (Some (Str s)) w of
             (Inl e, w1) \<Rightarrow> cb (Some e) None w1
           | (Inr u, w1) \<Rightarrow> (Inr u, w1)))"

definition copyingSlice :: "Buffer \<Rightarrow> Buffer" where
  "copyingSlice buff = buff"

text \<open>
  Closing a handle: the non-blocking form hands the outcome to its callback at once,
  the blocking form throws it.
\<close>

definition close :: "env \<Rightarrow> File \<Rightarrow> (ApiError option \<Rightarrow> world \<Rightarrow> unit result) \<Rightarrow> world \<Rightarrow> unit result" where
  "close E fd cb w = cb (closeErr E fd) (record_event (Closed (nsf_path fd)) w)"

definition closeSync :: "env \<Rightarrow> File \<Rightarrow> world \<Rightarrow> unit result" where
  "closeSync E fd w =
     ((case closeErr E fd of None \<Rightarrow> Inr () | Some e \<Rightarrow> Inl e), record_event (Closed (nsf_path fd)) w)"

text \<open>
  \<open>readFile\<close>: an error of \<open>open\<close> goes to the caller's callback as it is. Otherwise the
  callback is wrapped so that the handle is closed first and the caller then gets the
  earlier error, or else the error of the close. A call of the open callback with neither
  an error nor a handle would end in a TypeError.
\<close>

definition readFile_meanwhile ::
  "(world \<Rightarrow> world) \<Rightarrow> env \<Rightarrow> world \<Rightarrow> string \<Rightarrow> string option \<Rightarrow> FileFlag \<Rightarrow>
     FileData callback \<Rightarrow> unit result" where
  "readFile_meanwhile meanwhile E w fname encoding flag oldCb =
     open_meanwhile meanwhile E w fname flag 420 (\<lambda>err fd w1.
       case err of
         Some e \<Rightarrow> oldCb (Some e) None w1
       | None \<Rightarrow>
           (case fd of
              None \<Rightarrow> (Inl (Thrown ''TypeError''), w1)
            | Some f \<Rightarrow>
                (let cb = (\<lambda>err arg w2.
                       close E f (\<lambda>err2 w3. oldCb (if err = None then err2 else err) arg w3) w2)
                 in case encoding of
                      None \<Rightarrow> cb None (Some (Buf (copyingSlice (nsf_buffer f)))) w1
                    | Some enc \<Rightarrow> tryToString E (nsf_buffer f) enc cb w1)))"

definition readFile ::
  "env \<Rightarrow> world \<Rightarrow> string \<Rightarrow> string option \<Rightarrow> FileFlag \<Rightarrow> FileData callback \<Rightarrow> unit result" where
  "readFile E w fname encoding flag oldCb =
     readFile_meanwhile (\<lambda>w. w) E w fname encoding flag oldCb"

text \<open>
  \<open>readFileSync\<close>: the body of the \<open>try\<close> returns the copied buffer or the decoded
  text, or throws; the \<open>finally\<close> clause closes the handle, and what it throws replaces
  the outcome of the body.
\<close>

definition readFileSync ::
  "env \<Rightarrow> world \<Rightarrow> string \<Rightarrow> string option \<Rightarrow> FileFlag \<Rightarrow> FileData result" where
  "readFileSync E w fname encoding flag =
     (case openSync E w fname flag 420 of
        (Inl e, w1) \<Rightarrow> (Inl e, w1)
      | (Inr fd, w1) \<Rightarrow>
          (let body = (case encoding of
                         None \<Rightarrow> Inr (Buf (copyingSlice (nsf_buffer fd)))
                       | Some enc \<Rightarrow>
                           (case toString E (nsf_buffer fd) enc of
                              Inl e \<Rightarrow> Inl e
                            | Inr s \<Rightarrow> Inr (Str s)))
           in case closeSync E fd w1 of
                (Inl e2, w2) \<Rightarrow> (Inl e2, w2)
              | (Inr u, w2) \<Rightarrow> (body, w2)))"

section \<open>Observations\<close>

text \<open>
  A caller's callback that is recorded in the trace each time it is invoked; \<open>f\<close> says
  for each pair of arguments whether the callback throws, and what.
\<close>

definition observe ::
  "('r \<Rightarrow> CbValue) \<Rightarrow> (ApiError option \<Rightarrow> 'r option \<Rightarrow> ApiError option) \<Rightarrow> 'r callback" where
  "observe tag f err v w =
     ((case f err v of None \<Rightarrow> Inr () | Some e \<Rightarrow> Inl e), record_event (Callback err (map_option tag v)) w)"

fun isCallback :: "event \<Rightarrow> bool" where
  "isCallback (Callback e v) = True"
| "isCallback _ = False"

fun isClosed :: "event \<Rightarrow> bool" where
  "isClosed (Closed p) = True"
| "isClosed _ = False"

fun isXhr :: "event \<Rightarrow> bool" where
  "isXhr (XhrHead u) = True"
| "isXhr (XhrGet u) = True"
| "isXhr _ = False"

text \<open>A callback that returns normally whatever it is handed.\<close>

definition returns :: "'r callback \<Rightarrow> bool" where
  "returns cb = (\<forall>e v w. fst (cb e v w) = Inr ())"

text \<open>Reading and mutating a Stats object through a reference to it.\<close>

fun readObj :: "world \<Rightarrow> StatsObj \<Rightarrow> Stats" where
  "readObj w (Canonical r) = store w r"
| "readObj w (Clone s) = s"

fun mutateObj :: "StatsObj \<Rightarrow> (Stats \<Rightarrow> Stats) \<Rightarrow> world \<Rightarrow> world" where
  "mutateObj (Canonical r) f w = w\<lparr>store := (store w)(r := f (store w r))\<rparr>"
| "mutateObj (Clone s) f w = w"

text \<open>The invariant of the Stat records: content that is present has the recorded size.\<close>

definition stat_ok :: "Stats \<Rightarrow> bool" where
  "stat_ok s = (case file_data s of None \<Rightarrow> True | Some b \<Rightarrow> st_size s = int (length b))"

definition stats_inv :: "world \<Rightarrow> bool" where
  "stats_inv w = (\<forall>r. stat_ok (store w r))"


text \<open>What runs between a request and its answer keeps the invariant.\<close>

definition keeps :: "(world \<Rightarrow> world) \<Rightarrow> bool" where
  "keeps meanwhile = (\<forall>w. stats_inv w \<longrightarrow> stats_inv (meanwhile w))"

text \<open>
  Between two worlds, every record whose content differs from before satisfies the
  invariant: content is never written without its size.
\<close>

definition sized_writes :: "world \<Rightarrow> world \<Rightarrow> bool" where
  "sized_writes w w' =
     (\<forall>r. file_data (store w' r) \<noteq> file_data (store w r) \<longrightarrow> stat_ok (store w' r))"

text \<open>The addresses of the Stat records of the file nodes of an index.\<close>

definition fileRefs :: "(string \<times> Inode) list \<Rightarrow> nat set" where
  "fileRefs xs = {r. \<exists>p. (p, FileInode r) \<in> set xs}"

section \<open>An example file system\<close>

definition hello :: Buffer where
  "hello = [104, 101, 108, 108, 111]"

definition exEnv :: env where
  "exEnv =
     \<lparr>getFileSize = (\<lambda>u. if u = ''a.txt'' then Inr 5 else Inl (ApiError ENOENT u)),
      downloadFile = (\<lambda>u. if u = ''a.txt'' then Inr hello else Inl (ApiError ENOENT u)),
      toString = (\<lambda>b enc. if enc = ''ascii'' then Inr (map (\<lambda>x. CHR ''x'') b)
                           else Inl (Thrown ''Unknown encoding'')),
      closeErr = (\<lambda>fd. None)\<rparr>"

definition exWorld :: world where
  "exWorld =
     \<lparr>index = [(''/'', DirInode [''a.txt'', ''d''] 10), (''/a.txt'', FileInode 11),
               (''/d'', DirInode [] 12)],
      store = (\<lambda>r. if r = 11 then \<lparr>st_size = - 1, file_data = None\<rparr>
                    else \<lparr>st_size = 4096, file_data = None\<rparr>),
      prefixUrl = [],
      trace = []\<rparr>"

definition rd :: FileFlag where
  "rd = \<lparr>isWriteable = False, pathExistsAction = NOP\<rparr>"

definition exLoaded :: world where
  "exLoaded = setContent 11 hello exWorld"

text \<open>An environment whose transport and decoding always fail.\<close>

definition deadEnv :: env where
  "deadEnv =
     \<lparr>getFileSize = (\<lambda>u. Inl (ApiError EIO u)), downloadFile = (\<lambda>u. Inl (ApiError EIO u)),
      toString = (\<lambda>b enc. Inl (Thrown ''Unknown encoding'')), closeErr = (\<lambda>fd. None)\<rparr>"

text \<open>A callback that throws when it is handed a result and returns when handed an error.\<close>

definition throwOnResult :: "ApiError option \<Rightarrow> 'r option \<Rightarrow> ApiError option" where
  "throwOnResult err v = (case err of None \<Rightarrow> Some (Thrown ''boom'') | Some e \<Rightarrow> None)"

section \<open>The composition that readFile stands for\<close>

text \<open>
  The spec describes \<open>readFile\<close> as open, then read of the entire buffer, then close,
  with the earliest error reported when both the read and the close fail, and with
  either an error or a result handed to the caller, never both. The definitions of this
  section follow these words; they are compared with the source's \<open>readFile\<close> and
  \<open>readFileSync\<close> below.
\<close>

definition earliest :: "ApiError option \<Rightarrow> ApiError option \<Rightarrow> ApiError option" where
  "earliest readError closeError = (case readError of Some e \<Rightarrow> Some e | None \<Rightarrow> closeError)"

definition readEntire :: "env \<Rightarrow> File \<Rightarrow> string option \<Rightarrow> ApiError + FileData" where
  "readEntire E fd encoding =
     (case encoding of
        None \<Rightarrow> Inr (Buf (nsf_buffer fd))
      | Some enc \<Rightarrow>
          (case toString E (nsf_buffer fd) enc of Inl e \<Rightarrow> Inl e | Inr s \<Rightarrow> Inr (Str s)))"

fun errOf :: "ApiError + 'a \<Rightarrow> ApiError option" where
  "errOf (Inl e) = Some e"
| "errOf (Inr v) = None"

fun valOf :: "ApiError + 'a \<Rightarrow> 'a option" where
  "valOf (Inl e) = None"
| "valOf (Inr v) = Some v"

definition readFile_composed ::
  "env \<Rightarrow> world \<Rightarrow> string \<Rightarrow> string option \<Rightarrow> FileFlag \<Rightarrow> FileData callback \<Rightarrow> unit result" where
  "readFile_composed E w fname encoding flag cb =
     open E w fname flag 420 (\<lambda>err fd w1.
       case err of
         Some e \<Rightarrow> cb (Some e) None w1
       | None \<Rightarrow>
           (case fd of
              None \<Rightarrow> (Inl (Thrown ''TypeError''), w1)
            | Some f \<Rightarrow>
                close E f (\<lambda>err2 w2.
                  case earliest (errOf (readEntire E f encoding)) err2 of
                    Some e \<Rightarrow> cb (Some e) None w2
                  | None \<Rightarrow> cb None (valOf (readEntire E f encoding)) w2) w1))"

definition readFileSync_composed ::
  "env \<Rightarrow> world \<Rightarrow> string \<Rightarrow> string option \<Rightarrow> FileFlag \<Rightarrow> FileData result" where
  "readFileSync_composed E w fname encoding flag =
     (case openSync E w fname flag 420 of
        (Inl e, w1) \<Rightarrow> (Inl e, w1)
      | (Inr fd, w1) \<Rightarrow>
          (case closeSync E fd w1 of
             (c, w2) \<Rightarrow>
               (case earliest (errOf (readEntire E fd encoding)) (errOf c) of
                  Some e \<Rightarrow> (Inl e, w2)
                | None \<Rightarrow> (readEntire E fd encoding, w2))))"

section \<open>Further example values\<close>




section \<open>Facts about the example\<close>

lemma exWorld_a: "getInode exWorld ''/a.txt'' = Some (FileInode 11)"
  by (simp add: getInode_def exWorld_def)


lemma close_exEnv: "\<forall>f. closeErr exEnv f = None"
  by (simp add: exEnv_def)

lemma readdirSync_d: "readdirSync exWorld ''/d'' = (Inr [], exWorld)"
  by (simp add: readdirSync_def getInode_def exWorld_def)

lemma openSync_exWorld:
  "openSync exEnv exWorld ''/a.txt'' rd 420 =
     (Inr (NoSyncFile ''/a.txt'' rd \<lparr>st_size = 5, file_data = Some hello\<rparr> hello),
      setContent 11 hello (record_event (XhrGet ''a.txt'') exWorld))"
proof -
  have d: "file_data (store exWorld 11) = None"
    by (simp add: exWorld_def)
  have g: "requestFileSync exEnv exWorld ''/a.txt'' =
             (Inr hello, record_event (XhrGet ''a.txt'') exWorld)"
    by (simp add: requestFileSync_def getXhrPath_def exEnv_def exWorld_def)
  have s: "store (setContent 11 hello (record_event (XhrGet ''a.txt'') exWorld)) 11 =
             \<lparr>st_size = 5, file_data = Some hello\<rparr>"
    by (simp add: setContent_def record_event_def exWorld_def hello_def)
  show ?thesis
    by (simp add: openSync_def rd_def exWorld_a d g s)
qed

lemma statSync_exWorld:
  "statSync exEnv exWorld ''/a.txt'' False =
     (Inr (Canonical 11), setSize 11 5 (record_event (XhrHead ''a.txt'') exWorld))"
proof -
  have a: "getInode exWorld ''/a.txt'' = Some (FileInode 11)"
    by (simp add: getInode_def exWorld_def)
  have n: "st_size (store exWorld 11) < 0"
    by (simp add: exWorld_def)
  have g: "requestFileSizeSync exEnv exWorld ''/a.txt'' =
             (Inr 5, record_event (XhrHead ''a.txt'') exWorld)"
    by (simp add: requestFileSizeSync_def getXhrPath_def exEnv_def exWorld_def)
  show ?thesis by (simp add: statSync_def a n g)
qed

lemma readFileSync_exWorld:
  "readFileSync exEnv exWorld ''/a.txt'' None rd =
     (Inr (Buf hello),
      record_event (Closed ''/a.txt'') (setContent 11 hello (record_event (XhrGet ''a.txt'') exWorld)))"
  by (simp add: readFileSync_def openSync_exWorld closeSync_def close_exEnv copyingSlice_def
        NoSyncFile_def)

lemma openSync_exLoaded:
  "openSync E exLoaded ''/a.txt'' rd 420 =
     (Inr (NoSyncFile ''/a.txt'' rd \<lparr>st_size = 5, file_data = Some hello\<rparr> hello), exLoaded)"
proof -
  have a: "getInode exLoaded ''/a.txt'' = Some (FileInode 11)"
    by (simp add: getInode_def exLoaded_def setContent_def exWorld_def)
  have s: "store exLoaded 11 = \<lparr>st_size = 5, file_data = Some hello\<rparr>"
    by (simp add: exLoaded_def setContent_def exWorld_def hello_def)
  show ?thesis by (simp add: openSync_def rd_def a s)
qed

lemma returns_observe: "returns (observe tag (\<lambda>e v. None))"
  by (simp add: returns_def observe_def)

lemma returns_observe_iff: "returns (observe tag f) = (\<forall>e v. f e v = None)"
  by (auto simp: returns_def observe_def split: option.splits)

lemma observe_once:
  "filter isCallback (trace (snd (observe tag f e v w))) =
     filter isCallback (trace w) @ [Callback e (map_option tag v)]"
  by (simp add: observe_def record_event_def)

section \<open>A non-blocking operation hands over what the blocking one returns\<close>

lemma readFile_unfold:
  "readFile E w fname encoding flag oldCb =
     open E w fname flag 420 (\<lambda>err fd w1.
       case err of
         Some e \<Rightarrow> oldCb (Some e) None w1
       | None \<Rightarrow>
           (case fd of
              None \<Rightarrow> (Inl (Thrown ''TypeError''), w1)
            | Some f \<Rightarrow>
                (let cb = (\<lambda>err arg w2.
                       close E f (\<lambda>err2 w3. oldCb (if err = None then err2 else err) arg w3) w2)
                 in case encoding of
                      None \<Rightarrow> cb None (Some (Buf (copyingSlice (nsf_buffer f)))) w1
                    | Some enc \<Rightarrow> tryToString E (nsf_buffer f) enc cb w1)))"
  by (simp add: readFile_def readFile_meanwhile_def open_def)

lemma open_cps:
  "open E w path flags mode cb =
     (case openSync E w path flags mode of
        (Inl e, w') \<Rightarrow> cb (Some e) None w'
      | (Inr fd, w') \<Rightarrow> cb None (Some fd) w')"
  by (simp add: open_def open_meanwhile_def openSync_def requestFileSync_def requestFileAsync_def
           split: option.splits Inode.splits ActionType.splits sum.splits)

lemma stat_cps_file:
  "getInode w path = Some (FileInode r) \<Longrightarrow>
   stat E w path isLstat cb =
     (case statSync E w path isLstat of
        (Inl e, w') \<Rightarrow> cb (Some e) None w'
      | (Inr s, w') \<Rightarrow> cb None (Some (Clone (readObj w' s))) w')"
  by (simp add: stat_def stat_meanwhile_def statSync_def requestFileSizeSync_def requestFileSizeAsync_def
           split: sum.splits)

lemma stat_cps_other:
  "\<not> isFileInode (getInode w path) \<Longrightarrow>
   stat E w path isLstat cb =
     (case statSync E w path isLstat of
        (Inl e, w') \<Rightarrow> cb (Some e) None w'
      | (Inr s, w') \<Rightarrow> cb None (Some s) w')"
  by (cases "getInode w path" rule: isFileInode.cases)
     (simp_all add: stat_def stat_meanwhile_def statSync_def)

lemma returns_case:
  "returns cb \<Longrightarrow>
   (case cb e v w of (Inl x, w2) \<Rightarrow> f x w2 | (Inr u, w2) \<Rightarrow> (Inr u, w2)) = cb e v w"
proof -
  assume "returns cb"
  then have "fst (cb e v w) = Inr ()" by (simp add: returns_def)
  then show ?thesis by (cases "cb e v w") (auto split: sum.splits)
qed

lemma readdir_cps:
  "returns cb \<Longrightarrow>
   readdir w path cb =
     (case readdirSync w path of
        (Inl e, w') \<Rightarrow> cb (Some e) None w'
      | (Inr l, w') \<Rightarrow> cb None (Some l) w')"
proof -
  assume r: "returns cb"
  obtain x w1 where s: "readdirSync w path = (x, w1)" by (cases "readdirSync w path")
  show ?thesis
    by (cases x) (simp_all add: readdir_def s returns_case [OF r])
qed

lemma tryToString_returns:
  "returns cb \<Longrightarrow>
   tryToString E buff enc cb w =
     (case toString E buff enc of Inl e \<Rightarrow> cb (Some e) None w | Inr s \<Rightarrow> cb None (Some (Str s)) w)"
proof -
  assume r: "returns cb"
  show ?thesis
    by (cases "toString E buff enc") (simp_all add: tryToString_def returns_case [OF r])
qed

lemma close_returns:
  "returns cb \<Longrightarrow> returns (\<lambda>err arg w2. close E f (\<lambda>err2 w3. cb (g err err2) arg w3) w2)"
  by (simp add: returns_def close_def)

lemma readFile_cps:
  assumes "returns cb" and "\<forall>f. closeErr E f = None"
  shows "readFile E w fname encoding flag cb =
     (case readFileSync E w fname encoding flag of
        (Inl e, w') \<Rightarrow> cb (Some e) None w'
      | (Inr d, w') \<Rightarrow> cb None (Some d) w')"
proof -
  have r: "\<And>f. returns (\<lambda>err arg w2. close E f (\<lambda>err2 w3. cb (if err = None then err2 else err) arg w3) w2)"
    using assms(1) by (rule close_returns)
  show ?thesis
    using assms(2)
    by (simp add: readFile_unfold readFileSync_def open_cps tryToString_returns [OF r]
          close_def closeSync_def
          split: prod.splits sum.splits option.splits)
qed

lemma readFileSync_world:
  "snd (readFileSync E w fname encoding flag) =
     (case openSync E w fname flag 420 of
        (Inl e, w1) \<Rightarrow> w1
      | (Inr fd, w1) \<Rightarrow> record_event (Closed (nsf_path fd)) w1)"
  by (simp add: readFileSync_def closeSync_def Let_def split: prod.splits sum.splits option.splits)

section \<open>Open with write intent\<close>

text \<open>
  C1: for every path and every flag with write intent, \<open>open\<close> hands
  \<open>ApiError EPERM path\<close> to its callback and \<open>openSync\<close> throws it, in the world they
  were called in: the index is not consulted, so an absent path, a directory and every
  exists-action give the same answer.
\<close>

theorem C1_write_intent_EPERM:
  "isWriteable flags \<Longrightarrow>
     open E w path flags mode cb = cb (Some (ApiError EPERM path)) None w
     \<and> openSync E w path flags mode = (Inl (ApiError EPERM path), w)"
  by (simp add: open_def open_meanwhile_def openSync_def)

theorem C1_write_intent_EPERM_witness:
  "isWriteable \<lparr>isWriteable = True, pathExistsAction = TRUNCATE_FILE\<rparr>
   \<and> open exEnv exWorld ''/missing'' \<lparr>isWriteable = True, pathExistsAction = TRUNCATE_FILE\<rparr> 420
        (observe VFile (\<lambda>e v. None))
      = observe VFile (\<lambda>e v. None) (Some (ApiError EPERM ''/missing'')) None exWorld
   \<and> openSync exEnv exWorld ''/missing'' \<lparr>isWriteable = True, pathExistsAction = TRUNCATE_FILE\<rparr> 420
      = (Inl (ApiError EPERM ''/missing''), exWorld)"
  using C1_write_intent_EPERM [of "\<lparr>isWriteable = True, pathExistsAction = TRUNCATE_FILE\<rparr>"
      exEnv exWorld "''/missing''" 420 "observe VFile (\<lambda>e v. None)"]
  by simp

section \<open>The exists-action of a read-only open\<close>

text \<open>
  C2: for a path that resolves to a file node and a flag without write intent, both
  opens fail with EEXIST under THROW_EXCEPTION and under TRUNCATE_FILE, and with EINVAL
  under any action other than these two and NOP. Under NOP they return a handle over the
  resident content, or over the downloaded bytes when the transport delivers them; no
  other action ever yields a handle.
\<close>

theorem C2_exists_action:
  assumes "getInode w path = Some (FileInode r)" and "\<not> isWriteable flags"
  shows "(pathExistsAction flags = THROW_EXCEPTION \<or> pathExistsAction flags = TRUNCATE_FILE \<longrightarrow>
            openSync E w path flags mode = (Inl (ApiError EEXIST path), w)
            \<and> open E w path flags mode cb = cb (Some (ApiError EEXIST path)) None w)
       \<and> (pathExistsAction flags \<notin> {THROW_EXCEPTION, TRUNCATE_FILE, NOP} \<longrightarrow>
            openSync E w path flags mode = (Inl (ApiError EINVAL ''Invalid FileMode object.''), w)
            \<and> open E w path flags mode cb = cb (Some (ApiError EINVAL ''Invalid FileMode object.'')) None w)
       \<and> (pathExistsAction flags = NOP \<longrightarrow>
            (\<forall>d. file_data (store w r) = Some d \<longrightarrow>
               openSync E w path flags mode = (Inr (NoSyncFile path flags (store w r) d), w)
               \<and> open E w path flags mode cb = cb None (Some (NoSyncFile path flags (store w r) d)) w)
            \<and> (\<forall>b. file_data (store w r) = None \<and> downloadFile E (getXhrPath w path) = Inr b \<longrightarrow>
               (\<exists>fd w'. nsf_buffer fd = b
                  \<and> openSync E w path flags mode = (Inr fd, w')
                  \<and> open E w path flags mode cb = cb None (Some fd) w')))
       \<and> (\<forall>fd w'. openSync E w path flags mode = (Inr fd, w') \<longrightarrow> pathExistsAction flags = NOP)"
  using assms
  by (cases "pathExistsAction flags")
     (auto simp: open_def open_meanwhile_def openSync_def requestFileSync_def requestFileAsync_def NoSyncFile_def
           split: option.splits sum.splits)

theorem C2_exists_action_witness:
  "getInode exWorld ''/a.txt'' = Some (FileInode 11) \<and> \<not> isWriteable rd
   \<and> pathExistsAction rd = NOP
   \<and> file_data (store exWorld 11) = None
   \<and> downloadFile exEnv (getXhrPath exWorld ''/a.txt'') = Inr hello
   \<and> (\<exists>fd w'. nsf_buffer fd = hello \<and> openSync exEnv exWorld ''/a.txt'' rd 420 = (Inr fd, w'))
   \<and> openSync exEnv exWorld ''/a.txt'' \<lparr>isWriteable = False, pathExistsAction = TRUNCATE_FILE\<rparr> 420
       = (Inl (ApiError EEXIST ''/a.txt''), exWorld)"
proof -
  have a: "getInode exWorld ''/a.txt'' = Some (FileInode 11)"
    by (simp add: getInode_def exWorld_def)
  have n: "\<not> isWriteable rd" "pathExistsAction rd = NOP"
    by (simp_all add: rd_def)
  have d: "file_data (store exWorld 11) = None"
    by (simp add: exWorld_def)
  have g: "downloadFile exEnv (getXhrPath exWorld ''/a.txt'') = Inr hello"
    by (simp add: exEnv_def getXhrPath_def exWorld_def)
  have t: "\<not> isWriteable \<lparr>isWriteable = False, pathExistsAction = TRUNCATE_FILE\<rparr>"
    "pathExistsAction \<lparr>isWriteable = False, pathExistsAction = TRUNCATE_FILE\<rparr> = TRUNCATE_FILE"
    by simp_all
  have "\<exists>fd w'. nsf_buffer fd = hello \<and> openSync exEnv exWorld ''/a.txt'' rd 420 = (Inr fd, w')"
    using C2_exists_action [OF a n(1), of exEnv 420 "observe VFile (\<lambda>e v. None)"] n(2) d g
    by blast
  moreover have "openSync exEnv exWorld ''/a.txt'' \<lparr>isWriteable = False, pathExistsAction = TRUNCATE_FILE\<rparr> 420
       = (Inl (ApiError EEXIST ''/a.txt''), exWorld)"
    using C2_exists_action [OF a t(1), of exEnv 420 "observe VFile (\<lambda>e v. None)"] t(2)
    by blast
  ultimately show ?thesis using a n d g by blast
qed

section \<open>Snapshots and the canonical record\<close>

lemma stat_file_clone:
  "getInode w path = Some (FileInode r) \<Longrightarrow>
     (\<exists>e w'. stat E w path isLstat cb = cb (Some e) None w')
     \<or> (\<exists>s w'. stat E w path isLstat cb = cb None (Some (Clone s)) w'
                \<and> s = store w' r
                \<and> (\<forall>f. store (mutateObj (Clone s) f w') = store w'))"
  by (cases "getFileSize E (getXhrPath w path)")
     (auto simp: stat_def stat_meanwhile_def requestFileSizeAsync_def)

lemma statSync_file_canonical:
  "getInode w path = Some (FileInode r) \<Longrightarrow> statSync E w path isLstat = (Inr s, w') \<Longrightarrow>
     s = Canonical r \<and> store (mutateObj s f w') r = f (store w' r)"
  by (auto simp: statSync_def requestFileSizeSync_def split: if_splits sum.splits)

text \<open>
  C3: \<open>statSync\<close> on a file path returns the Stats object of the inode itself, not a
  clone. On the example index the returned object is the canonical record at address
  11: assigning a size through it changes the record in the index, and a later change
  of the record shows through it. (\<open>stat\<close>, the non-blocking form, hands a clone to
  its callback, see \<open>stat_file_clone\<close>.)
\<close>

theorem C3_statSync_returns_canonical:
  "getInode exWorld ''/a.txt'' = Some (FileInode 11)
   \<and> fst (statSync exEnv exWorld ''/a.txt'' False) = Inr (Canonical 11)
   \<and> st_size (store (snd (statSync exEnv exWorld ''/a.txt'' False)) 11) = 5
   \<and> st_size (store (mutateObj (Canonical 11) (\<lambda>s. s\<lparr>st_size := 99\<rparr>)
                 (snd (statSync exEnv exWorld ''/a.txt'' False))) 11) = 99
   \<and> st_size (readObj (setSize 11 7 (snd (statSync exEnv exWorld ''/a.txt'' False)))
                 (Canonical 11)) = 7"
  by (simp add: statSync_exWorld exWorld_a setSize_def record_event_def)

section \<open>Preloading a file\<close>

lemma preloadFile_absent:
  "getInode w path = None \<Longrightarrow> preloadFile w path buffer = (Inl (ApiError EISDIR path), w)"
  by (simp add: preloadFile_def)

lemma preloadFile_dir:
  "getInode w path = Some (DirInode l r) \<Longrightarrow>
     preloadFile w path buffer = (Inl (ApiError EISDIR path), w)"
  by (simp add: preloadFile_def)

lemma preloadFile_file:
  "getInode w path = Some (FileInode r) \<Longrightarrow>
     preloadFile w path buffer = (Inr (), setContent r buffer w)
     \<and> st_size (store (setContent r buffer w) r) = int (length buffer)
     \<and> file_data (store (setContent r buffer w) r) = Some buffer"
  by (simp add: preloadFile_def setContent_def)

text \<open>
  C4: \<open>preloadFile\<close> on a path that is absent from the index. The test for the null
  inode sits inside the branch that the file-node guard has already taken, so an absent
  path reaches the final \<open>else\<close> and is answered with EISDIR, not with ENOENT. (On a
  directory the answer is EISDIR and on a file both fields are set, see the lemmas
  above.)
\<close>

theorem C4_preloadFile_absent_EISDIR:
  "getInode exWorld ''/missing'' = None
   \<and> preloadFile exWorld ''/missing'' hello = (Inl (ApiError EISDIR ''/missing''), exWorld)
   \<and> preloadFile exWorld ''/missing'' hello \<noteq> (Inl (ApiError ENOENT ''/missing''), exWorld)"
  by (simp add: preloadFile_def getInode_def exWorld_def)

section \<open>Invocations of the completion callback\<close>

text \<open>
  C5: \<open>readdir\<close> with a callback that throws when it is handed the listing. The call of
  the callback sits inside the \<open>try\<close> block, so the exception of the callback is
  caught and the callback is invoked a second time, with that exception as its error.
\<close>

theorem C5_readdir_callback_twice:
  "filter isCallback (trace (snd (readdir exWorld ''/d'' (observe VListing throwOnResult))))
     = [Callback None (Some (VListing [])), Callback (Some (Thrown ''boom'')) None]"
proof -
  have t: "trace exWorld = []" by (simp add: exWorld_def)
  show ?thesis
    by (simp add: readdir_def readdirSync_d observe_def throwOnResult_def record_event_def t)
qed

text \<open>
  With a callback that returns normally, and for \<open>stat\<close> and \<open>open\<close> with any
  callback, the callback is invoked exactly once, with an error or with a result.
\<close>

lemma trace_statSync:
  "filter isCallback (trace (snd (statSync E w path isLstat))) = filter isCallback (trace w)"
  by (cases "getInode w path" rule: isFileInode.cases)
     (auto simp: statSync_def requestFileSizeSync_def setSize_def record_event_def split: sum.splits)

lemma trace_openSync:
  "filter isCallback (trace (snd (openSync E w path flags mode))) = filter isCallback (trace w)"
  by (auto simp: openSync_def requestFileSync_def setContent_def record_event_def
        split: option.splits Inode.splits ActionType.splits sum.splits)

lemma trace_readdirSync:
  "filter isCallback (trace (snd (readdirSync w path))) = filter isCallback (trace w)"
  by (auto simp: readdirSync_def split: option.splits Inode.splits)

lemma trace_readFileSync:
  "filter isCallback (trace (snd (readFileSync E w fname encoding flag))) = filter isCallback (trace w)"
proof -
  obtain x w1 where o: "openSync E w fname flag 420 = (x, w1)" by (cases "openSync E w fname flag 420")
  from trace_openSync [of E w fname flag 420] o
  have "filter isCallback (trace w1) = filter isCallback (trace w)" by simp
  then show ?thesis
    by (cases x) (simp_all add: readFileSync_world o record_event_def)
qed

lemma open_callback_once:
  "\<exists>e v. (e = None) \<noteq> (v = None) \<and>
     filter isCallback (trace (snd (open E w path flags mode (observe VFile f)))) =
       filter isCallback (trace w) @ [Callback e v]"
proof -
  obtain x w1 where o: "openSync E w path flags mode = (x, w1)" by (cases "openSync E w path flags mode")
  from trace_openSync [of E w path flags mode] o
  have t: "filter isCallback (trace w1) = filter isCallback (trace w)" by simp
  show ?thesis
    by (cases x) (simp_all add: open_cps o observe_once t)
qed

lemma stat_callback_once:
  "\<exists>e v. (e = None) \<noteq> (v = None) \<and>
     filter isCallback (trace (snd (stat E w path isLstat (observe VStats f)))) =
       filter isCallback (trace w) @ [Callback e v]"
proof -
  obtain x w1 where o: "statSync E w path isLstat = (x, w1)" by (cases "statSync E w path isLstat")
  from trace_statSync [of E w path isLstat] o
  have t: "filter isCallback (trace w1) = filter isCallback (trace w)" by simp
  show ?thesis
  proof (cases "isFileInode (getInode w path)")
    case True
    then obtain r where "getInode w path = Some (FileInode r)"
      by (cases "getInode w path" rule: isFileInode.cases) simp_all
    then show ?thesis
      by (cases x) (simp_all add: stat_cps_file o observe_once t)
  next
    case False
    then show ?thesis
      by (cases x) (simp_all add: stat_cps_other o observe_once t)
  qed
qed

lemma readdir_callback_once:
  assumes "\<forall>e v. f e v = None"
  shows "\<exists>e v. (e = None) \<noteq> (v = None) \<and>
     filter isCallback (trace (snd (readdir w path (observe VListing f)))) =
       filter isCallback (trace w) @ [Callback e v]"
proof -
  have r: "returns (observe VListing f)" using assms by (simp add: returns_observe_iff)
  obtain x w1 where o: "readdirSync w path = (x, w1)" by (cases "readdirSync w path")
  from trace_readdirSync [of w path] o
  have t: "filter isCallback (trace w1) = filter isCallback (trace w)" by simp
  show ?thesis
    by (cases x) (simp_all add: readdir_cps [OF r] o observe_once t)
qed

lemma readFile_callback_once:
  assumes "\<forall>e v. f e v = None" and "\<forall>fd. closeErr E fd = None"
  shows "\<exists>e v. (e = None) \<noteq> (v = None) \<and>
     filter isCallback (trace (snd (readFile E w fname encoding flag (observe VData f)))) =
       filter isCallback (trace w) @ [Callback e v]"
proof -
  have r: "returns (observe VData f)" using assms(1) by (simp add: returns_observe_iff)
  obtain x w1 where o: "readFileSync E w fname encoding flag = (x, w1)"
    by (cases "readFileSync E w fname encoding flag")
  from trace_readFileSync [of E w fname encoding flag] o
  have t: "filter isCallback (trace w1) = filter isCallback (trace w)" by simp
  show ?thesis
    by (cases x) (simp_all add: readFile_cps [OF r assms(2)] o observe_once t)
qed

section \<open>Blocking and non-blocking forms\<close>

text \<open>
  C6: on the same world and with the same environment, each non-blocking operation
  hands to its callback what the blocking operation returns or throws, in the world the
  blocking operation leaves: the same error, the same handle, the same listing, the
  same data, and for \<open>stat\<close> on a file a clone of the record that \<open>statSync\<close> returns
  (so the same size). For \<open>readdir\<close> and \<open>readFile\<close> the callback is one that
  returns normally, and for \<open>readFile\<close> the close of the handle does not fail, as it
  never does for the buffered handle of this file system.
\<close>

theorem C6_blocking_nonblocking_agree:
  "(getInode w path = Some (FileInode r) \<longrightarrow>
      stat E w path isLstat cbS =
        (case statSync E w path isLstat of
           (Inl e, w') \<Rightarrow> cbS (Some e) None w'
         | (Inr s, w') \<Rightarrow> cbS None (Some (Clone (readObj w' s))) w'))
   \<and> (\<not> isFileInode (getInode w path) \<longrightarrow>
      stat E w path isLstat cbS =
        (case statSync E w path isLstat of
           (Inl e, w') \<Rightarrow> cbS (Some e) None w'
         | (Inr s, w') \<Rightarrow> cbS None (Some s) w'))
   \<and> open E w path flags mode cbO =
        (case openSync E w path flags mode of
           (Inl e, w') \<Rightarrow> cbO (Some e) None w'
         | (Inr fd, w') \<Rightarrow> cbO None (Some fd) w')
   \<and> (returns cbD \<longrightarrow>
      readdir w path cbD =
        (case readdirSync w path of
           (Inl e, w') \<Rightarrow> cbD (Some e) None w'
         | (Inr l, w') \<Rightarrow> cbD None (Some l) w'))
   \<and> (returns cbF \<and> (\<forall>f. closeErr E f = None) \<longrightarrow>
      readFile E w path encoding flags cbF =
        (case readFileSync E w path encoding flags of
           (Inl e, w') \<Rightarrow> cbF (Some e) None w'
         | (Inr d, w') \<Rightarrow> cbF None (Some d) w'))"
  using stat_cps_file [of w path r E isLstat cbS] stat_cps_other [of w path E isLstat cbS]
    open_cps [of E w path flags mode cbO] readdir_cps [of cbD w path]
    readFile_cps [of cbF E w path encoding flags]
  by blast

theorem C6_blocking_nonblocking_agree_witness:
  "getInode exWorld ''/a.txt'' = Some (FileInode 11)
   \<and> returns (observe VData (\<lambda>e v. None)) \<and> (\<forall>f. closeErr exEnv f = None)
   \<and> statSync exEnv exWorld ''/a.txt'' False =
        (Inr (Canonical 11), setSize 11 5 (record_event (XhrHead ''a.txt'') exWorld))
   \<and> stat exEnv exWorld ''/a.txt'' False (observe VStats (\<lambda>e v. None)) =
        observe VStats (\<lambda>e v. None) None (Some (Clone \<lparr>st_size = 5, file_data = None\<rparr>))
          (setSize 11 5 (record_event (XhrHead ''a.txt'') exWorld))
   \<and> readFileSync exEnv exWorld ''/a.txt'' None rd =
        (Inr (Buf hello),
         record_event (Closed ''/a.txt'')
           (setContent 11 hello (record_event (XhrGet ''a.txt'') exWorld)))
   \<and> readFile exEnv exWorld ''/a.txt'' None rd (observe VData (\<lambda>e v. None)) =
        observe VData (\<lambda>e v. None) None (Some (Buf hello))
          (record_event (Closed ''/a.txt'')
             (setContent 11 hello (record_event (XhrGet ''a.txt'') exWorld)))"
proof -
  have s: "readObj (setSize 11 5 (record_event (XhrHead ''a.txt'') exWorld)) (Canonical 11)
             = \<lparr>st_size = 5, file_data = None\<rparr>"
    by (simp add: setSize_def record_event_def exWorld_def)
  show ?thesis
    using C6_blocking_nonblocking_agree [of exWorld "''/a.txt''" 11 exEnv False
        "observe VStats (\<lambda>e v. None)" rd 420 "observe VFile (\<lambda>e v. None)"
        "observe VListing (\<lambda>e v. None)" "observe VData (\<lambda>e v. None)" None]
      exWorld_a returns_observe [of VData] close_exEnv statSync_exWorld readFileSync_exWorld s
    by simp
qed

section \<open>Whole-file reads\<close>

lemma readFile_returns:
  assumes "returns cb"
  shows "readFile E w fname encoding flag cb =
     (case openSync E w fname flag 420 of
        (Inl e, w1) \<Rightarrow> cb (Some e) None w1
      | (Inr fd, w1) \<Rightarrow>
          close E fd (\<lambda>err2 w2.
            cb (earliest (errOf (readEntire E fd encoding)) err2)
               (valOf (readEntire E fd encoding)) w2) w1)"
proof -
  have r: "\<And>f. returns (\<lambda>err arg w2. close E f (\<lambda>err2 w3. cb (if err = None then err2 else err) arg w3) w2)"
    using assms by (rule close_returns)
  obtain x w1 where o: "openSync E w fname flag 420 = (x, w1)" by (cases "openSync E w fname flag 420")
  show ?thesis
  proof (cases x)
    case (Inl e)
    then show ?thesis by (simp add: readFile_unfold open_cps o)
  next
    case (Inr fd)
    show ?thesis
    proof (cases encoding)
      case None
      with Inr show ?thesis
        by (simp add: readFile_unfold open_cps o readEntire_def earliest_def copyingSlice_def)
    next
      case (Some enc)
      with Inr show ?thesis
        by (cases "toString E (nsf_buffer fd) enc")
           (simp_all add: readFile_unfold open_cps o readEntire_def earliest_def
              tryToString_returns [OF r])
    qed
  qed
qed

lemma readFile_eq_composed:
  assumes "returns cb" and "\<forall>f. closeErr E f = None"
  shows "readFile E w fname encoding flag cb = readFile_composed E w fname encoding flag cb"
proof -
  obtain x w1 where o: "openSync E w fname flag 420 = (x, w1)" by (cases "openSync E w fname flag 420")
  show ?thesis
  proof (cases x)
    case (Inl e)
    then show ?thesis
      by (simp add: readFile_returns [OF assms(1)] readFile_composed_def open_cps o)
  next
    case (Inr fd)
    with assms(2) show ?thesis
      by (cases "readEntire E fd encoding")
         (simp_all add: readFile_returns [OF assms(1)] readFile_composed_def open_cps o close_def
            earliest_def)
  qed
qed

lemma readFileSync_eq_composed:
  assumes "\<forall>fd w1. openSync E w fname flag 420 = (Inr fd, w1) \<longrightarrow>
             errOf (readEntire E fd encoding) = None \<or> closeErr E fd = None"
  shows "readFileSync E w fname encoding flag = readFileSync_composed E w fname encoding flag"
proof -
  obtain x w1 where o: "openSync E w fname flag 420 = (x, w1)" by (cases "openSync E w fname flag 420")
  show ?thesis
  proof (cases x)
    case (Inl e)
    then show ?thesis by (simp add: readFileSync_def readFileSync_composed_def o)
  next
    case (Inr fd)
    with assms o have h: "errOf (readEntire E fd encoding) = None \<or> closeErr E fd = None" by simp
    have b: "(case encoding of
                None \<Rightarrow> Inr (Buf (copyingSlice (nsf_buffer fd)))
              | Some enc \<Rightarrow> (case toString E (nsf_buffer fd) enc of Inl e \<Rightarrow> Inl e | Inr s \<Rightarrow> Inr (Str s)))
             = readEntire E fd encoding"
      by (cases encoding) (simp_all add: readEntire_def copyingSlice_def)
    show ?thesis
    proof (cases "closeErr E fd")
      case None
      with Inr show ?thesis
        by (cases "readEntire E fd encoding")
           (simp_all add: readFileSync_def readFileSync_composed_def o b closeSync_def earliest_def)
    next
      case (Some e2)
      with h have "errOf (readEntire E fd encoding) = None" by simp
      with Inr Some show ?thesis
        by (cases "readEntire E fd encoding")
           (simp_all add: readFileSync_def readFileSync_composed_def o b closeSync_def earliest_def)
    qed
  qed
qed

lemma readFileSync_eq_composed_noop:
  "\<forall>f. closeErr E f = None \<Longrightarrow>
     readFileSync E w fname encoding flag = readFileSync_composed E w fname encoding flag"
  by (rule readFileSync_eq_composed) simp

lemma openSync_closed:
  "filter isClosed (trace (snd (openSync E w path flags mode))) = filter isClosed (trace w)"
  by (auto simp: openSync_def requestFileSync_def setContent_def record_event_def
        split: option.splits Inode.splits ActionType.splits sum.splits)

lemma openSync_path: "openSync E w path flags mode = (Inr fd, w1) \<Longrightarrow> nsf_path fd = path"
  by (auto simp: openSync_def requestFileSync_def NoSyncFile_def
        split: if_splits option.splits Inode.splits ActionType.splits sum.splits)

lemma readFileSync_closed_once:
  assumes "openSync E w fname flag 420 = (Inr fd, w1)"
  shows "filter isClosed (trace (snd (readFileSync E w fname encoding flag))) =
           filter isClosed (trace w) @ [Closed fname]"
proof -
  from openSync_closed [of E w fname flag 420] assms
  have t: "filter isClosed (trace w1) = filter isClosed (trace w)" by simp
  show ?thesis
    by (simp add: readFileSync_world assms record_event_def t openSync_path [OF assms])
qed

lemma readFileSync_not_closed:
  assumes "openSync E w fname flag 420 = (Inl e, w1)"
  shows "filter isClosed (trace (snd (readFileSync E w fname encoding flag))) =
           filter isClosed (trace w)"
proof -
  from openSync_closed [of E w fname flag 420] assms
  have t: "filter isClosed (trace w1) = filter isClosed (trace w)" by simp
  show ?thesis
    by (simp add: readFileSync_world assms t)
qed

lemma readFile_closed_once:
  assumes "openSync E w fname flag 420 = (Inr fd, w1)" and "\<forall>e v. f e v = None"
  shows "filter isClosed (trace (snd (readFile E w fname encoding flag (observe VData f)))) =
           filter isClosed (trace w) @ [Closed fname]"
proof -
  have r: "returns (observe VData f)" using assms(2) by (simp add: returns_observe_iff)
  from openSync_closed [of E w fname flag 420] assms(1)
  have t: "filter isClosed (trace w1) = filter isClosed (trace w)" by simp
  show ?thesis
    by (simp add: readFile_returns [OF r] assms(1) close_def
          observe_def record_event_def t openSync_path [OF assms(1)])
qed

text \<open>
  C7: \<open>readFile\<close> of a loaded file with an encoding and a callback that throws when it
  is handed the decoded text. The wrapped callback runs inside the \<open>try\<close> block of
  \<open>tryToString\<close>: it closes the handle and calls the caller's callback, the exception of
  that callback is caught, and the wrapped callback runs again. The handle is closed
  twice and the caller's callback is invoked twice, which no composition of open, read
  and one close does; \<open>readFileSync\<close> on the same file closes the handle once.
\<close>

theorem C7_readFile_closes_twice:
  "trace (snd (readFile exEnv exLoaded ''/a.txt'' (Some ''ascii'') rd (observe VData throwOnResult)))
     = [Closed ''/a.txt'', Callback None (Some (VData (Str ''xxxxx''))),
        Closed ''/a.txt'', Callback (Some (Thrown ''boom'')) None]
   \<and> trace (snd (readFileSync exEnv exLoaded ''/a.txt'' (Some ''ascii'') rd)) = [Closed ''/a.txt'']
   \<and> fst (readFileSync exEnv exLoaded ''/a.txt'' (Some ''ascii'') rd) = Inr (Str ''xxxxx'')"
proof -
  have t: "trace exLoaded = []"
    by (simp add: exLoaded_def setContent_def exWorld_def)
  have b: "nsf_buffer (NoSyncFile ''/a.txt'' rd \<lparr>st_size = 5, file_data = Some hello\<rparr> hello) = hello"
    "nsf_path (NoSyncFile ''/a.txt'' rd \<lparr>st_size = 5, file_data = Some hello\<rparr> hello) = ''/a.txt''"
    by (simp_all add: NoSyncFile_def)
  have d: "toString exEnv hello ''ascii'' = Inr ''xxxxx''"
    by (simp add: exEnv_def hello_def)
  have c: "\<And>fd. closeErr exEnv fd = None"
    by (simp add: exEnv_def)
  have 1: "trace (snd (readFile exEnv exLoaded ''/a.txt'' (Some ''ascii'') rd (observe VData throwOnResult)))
     = [Closed ''/a.txt'', Callback None (Some (VData (Str ''xxxxx''))),
        Closed ''/a.txt'', Callback (Some (Thrown ''boom'')) None]"
    by (simp add: readFile_unfold open_cps openSync_exLoaded b d c tryToString_def close_def
          observe_def throwOnResult_def record_event_def t)
  have 2: "readFileSync exEnv exLoaded ''/a.txt'' (Some ''ascii'') rd
             = (Inr (Str ''xxxxx''), record_event (Closed ''/a.txt'') exLoaded)"
    by (simp add: readFileSync_def openSync_exLoaded b d c closeSync_def)
  show ?thesis
    by (simp add: 1 2 record_event_def t)
qed

section \<open>Dropping all cached content\<close>

lemma fileRefs_Nil: "fileRefs [] = {}"
  by (simp add: fileRefs_def)

lemma fileRefs_File: "fileRefs ((p, FileInode r) # xs) = insert r (fileRefs xs)"
  by (auto simp: fileRefs_def)

lemma fileRefs_Dir: "fileRefs ((p, DirInode l r) # xs) = fileRefs xs"
  by (auto simp: fileRefs_def)

lemma fileIterator_clear:
  "fileIterator (\<lambda>file. file\<lparr>file_data := None\<rparr>) xs s r =
     (if r \<in> fileRefs xs then (s r)\<lparr>file_data := None\<rparr> else s r)"
proof (induction xs arbitrary: s)
  case Nil
  then show ?case by (simp add: fileRefs_Nil)
next
  case (Cons x xs)
  obtain p n where x: "x = (p, n)" by (cases x)
  show ?case
  proof (cases n)
    case (FileInode r')
    then show ?thesis by (simp add: x fileRefs_File Cons.IH)
  next
    case (DirInode l r')
    then show ?thesis by (simp add: x fileRefs_Dir Cons.IH)
  qed
qed

text \<open>
  C10: \<open>empty\<close> clears the content of the Stat record of every file node of the index
  and changes nothing else: the index (its paths, node types and directory listings),
  the prefix and the trace are as before, every record keeps its size, and a record
  that belongs to no file node is untouched.
\<close>

theorem C10_empty_frame:
  "index (empty_fs w) = index w
   \<and> prefixUrl (empty_fs w) = prefixUrl w
   \<and> trace (empty_fs w) = trace w
   \<and> (\<forall>path. getInode (empty_fs w) path = getInode w path)
   \<and> (\<forall>r. st_size (store (empty_fs w) r) = st_size (store w r))
   \<and> (\<forall>r\<in>fileRefs (index w). file_data (store (empty_fs w) r) = None)
   \<and> (\<forall>r. r \<notin> fileRefs (index w) \<longrightarrow> store (empty_fs w) r = store w r)"
  by (simp add: empty_fs_def getInode_def fileIterator_clear)

text \<open>
  C10 at the example index, after the content of the file has been loaded.
\<close>

theorem C10_empty_frame_witness:
  "11 \<in> fileRefs (index exLoaded) \<and> 10 \<notin> fileRefs (index exLoaded)
   \<and> file_data (store exLoaded 11) = Some hello
   \<and> file_data (store (empty_fs exLoaded) 11) = None
   \<and> st_size (store (empty_fs exLoaded) 11) = 5
   \<and> store (empty_fs exLoaded) 10 = store exLoaded 10
   \<and> index (empty_fs exLoaded) = index exLoaded"
proof -
  have i: "index exLoaded = [(''/'', DirInode [''a.txt'', ''d''] 10), (''/a.txt'', FileInode 11),
               (''/d'', DirInode [] 12)]"
    by (simp add: exLoaded_def setContent_def exWorld_def)
  have f: "fileRefs (index exLoaded) = {11}"
    by (simp add: i fileRefs_File fileRefs_Dir fileRefs_Nil)
  have s: "store exLoaded 11 = \<lparr>st_size = 5, file_data = Some hello\<rparr>"
    by (simp add: exLoaded_def setContent_def exWorld_def hello_def)
  show ?thesis
    using C10_empty_frame [of exLoaded] f s
    by simp
qed

section \<open>The invariant of the Stat records\<close>




















lemma sized_refl: "sized_writes w w"
  by (simp add: sized_writes_def)








lemma keeps_id: "keeps (\<lambda>w. w)"
  by (simp add: keeps_def)


















section \<open>Reuse of resident content\<close>

lemma openSync_success:
  "openSync E w path flags mode = (Inr fd, w1) \<Longrightarrow>
     \<exists>r. getInode w1 path = Some (FileInode r) \<and> file_data (store w1 r) = Some (nsf_buffer fd)"
  by (auto simp: openSync_def requestFileSync_def NoSyncFile_def setContent_def getInode_def
        record_event_def
        split: if_splits option.splits Inode.splits ActionType.splits sum.splits)

text \<open>
  C9: when an open of a path has succeeded (in its blocking form or, reaching the same
  handle and the same world, in its non-blocking form), a following NOP open of the
  same path without write intent returns a handle over the same bytes and leaves the
  world as it is, trace included: it sends no request to the transport, and it does
  so under any transport, also one that fails on every request.
\<close>

theorem C9_second_open_reuses_content:
  assumes "openSync E w path flags mode = (Inr fd1, w1)"
    and "\<not> isWriteable flags2" and "pathExistsAction flags2 = NOP"
  shows "open E w path flags mode cb1 = cb1 None (Some fd1) w1
       \<and> (\<exists>fd2. nsf_buffer fd2 = nsf_buffer fd1
             \<and> openSync E2 w1 path flags2 mode2 = (Inr fd2, w1)
             \<and> open E2 w1 path flags2 mode2 cb2 = cb2 None (Some fd2) w1)"
proof -
  from assms(1) obtain r where r: "getInode w1 path = Some (FileInode r)"
    "file_data (store w1 r) = Some (nsf_buffer fd1)"
    using openSync_success by blast
  have s: "openSync E2 w1 path flags2 mode2 =
             (Inr (NoSyncFile path flags2 (store w1 r) (nsf_buffer fd1)), w1)"
    using r assms(2,3) by (simp add: openSync_def)
  have "open E w path flags mode cb1 = cb1 None (Some fd1) w1"
    by (simp add: open_cps assms(1))
  moreover have "open E2 w1 path flags2 mode2 cb2 =
      cb2 None (Some (NoSyncFile path flags2 (store w1 r) (nsf_buffer fd1))) w1"
    by (simp add: open_cps s)
  moreover have "nsf_buffer (NoSyncFile path flags2 (store w1 r) (nsf_buffer fd1)) = nsf_buffer fd1"
    by (simp add: NoSyncFile_def)
  ultimately show ?thesis using s by blast
qed

theorem C9_second_open_reuses_content_witness:
  "openSync exEnv exWorld ''/a.txt'' rd 420 =
     (Inr (NoSyncFile ''/a.txt'' rd \<lparr>st_size = 5, file_data = Some hello\<rparr> hello),
      setContent 11 hello (record_event (XhrGet ''a.txt'') exWorld))
   \<and> \<not> isWriteable rd \<and> pathExistsAction rd = NOP
   \<and> (\<exists>fd2. nsf_buffer fd2 = hello
         \<and> openSync deadEnv (setContent 11 hello (record_event (XhrGet ''a.txt'') exWorld)) ''/a.txt'' rd 420
             = (Inr fd2, setContent 11 hello (record_event (XhrGet ''a.txt'') exWorld)))"
proof -
  have n: "\<not> isWriteable rd" "pathExistsAction rd = NOP"
    by (simp_all add: rd_def)
  have b: "nsf_buffer (NoSyncFile ''/a.txt'' rd \<lparr>st_size = 5, file_data = Some hello\<rparr> hello) = hello"
    by (simp add: NoSyncFile_def)
  show ?thesis
    using C9_second_open_reuses_content [OF openSync_exWorld n, of "observe VFile (\<lambda>e v. None)"
        deadEnv 420 "observe VFile (\<lambda>e v. None)"] openSync_exWorld n b
    by auto
qed

end
